theory Spec2Isabelle
  imports Complex_Main "HOL-Library.Sublist" "HOL-Library.AList"
begin

section \<open>Python values\<close>

text \<open>
  The values that \<open>response.json()\<close> produces and that the client passes around.
  JSON \<open>null\<close> is Python's \<open>None\<close>, so one constructor stands for both. A dict is
  an association list read with \<open>map_of\<close>; deleting a key removes every entry for it.
  Integers are unbounded. A float is represented by the real number it denotes.
\<close>

datatype pyval =
    PNone
  | PBool bool
  | PInt int
  | PFloat real
  | PStr string
  | PList "pyval list"
  | PDict "(string \<times> pyval) list"

text \<open>
  Exceptions. \<open>TypeError\<close> carries the message of a \<open>raise TypeError(...)\<close> written in
  the source; \<open>TypeErrorOp\<close> is the \<open>TypeError\<close> that the interpreter raises when an
  operand's type does not support the operation. \<open>HTTPError\<close>, \<open>JSONDecodeError\<close> and
  \<open>TransportError\<close> come from the HTTP library, \<open>InterpolationError\<close> from the
  configuration parser. \<open>IndentationError\<close> is what the interpreter raises when it
  compiles a \<open>def\<close> that has no indented body. \<open>OmadaError\<close> carries the attributes
  \<open>errorCode\<close> and \<open>msg\<close> of the exception object.
\<close>

datatype error =
    TypeError string
  | TypeErrorOp
  | KeyError string
  | HTTPError nat
  | JSONDecodeError
  | TransportError
  | InterpolationError
  | IndentationError
  | OmadaError pyval pyval

text \<open>\<open>v == 0\<close>: an int, a float or a bool (a subclass of int) can equal zero.\<close>

fun py_eq_0 :: "pyval \<Rightarrow> bool" where
  "py_eq_0 (PInt i) = (i = 0)"
| "py_eq_0 (PFloat r) = (r = 0)"
| "py_eq_0 (PBool b) = (\<not> b)"
| "py_eq_0 _ = False"

text \<open>\<open>key in v\<close> for a string \<open>key\<close>.\<close>

fun py_in :: "string \<Rightarrow> pyval \<Rightarrow> error + bool" where
  "py_in key (PDict kvs) = Inr (key \<in> set (map fst kvs))"
| "py_in key (PList xs) = Inr (PStr key \<in> set xs)"
| "py_in key (PStr s) = Inr (sublist key s)"
| "py_in key _ = Inl TypeErrorOp"

text \<open>\<open>v[key]\<close> for a string \<open>key\<close>.\<close>

fun py_getitem :: "pyval \<Rightarrow> string \<Rightarrow> error + pyval" where
  "py_getitem (PDict kvs) key =
     (case map_of kvs key of None \<Rightarrow> Inl (KeyError key) | Some v \<Rightarrow> Inr v)"
| "py_getitem _ key = Inl TypeErrorOp"

text \<open>\<open>del v[key]\<close> for a string \<open>key\<close>; the result is the object after the deletion.\<close>

fun py_delitem :: "pyval \<Rightarrow> string \<Rightarrow> error + pyval" where
  "py_delitem (PDict kvs) key =
     (if key \<in> set (map fst kvs) then Inr (PDict (AList.delete key kvs))
      else Inl (KeyError key))"
| "py_delitem _ key = Inl TypeErrorOp"

text \<open>\<open>'"' + v + '"'\<close>: only a str can be concatenated to a str.\<close>

fun py_quote :: "pyval \<Rightarrow> error + pyval" where
  "py_quote (PStr s) = Inr (PStr (CHR 0x22 # s @ [CHR 0x22]))"
| "py_quote _ = Inl TypeErrorOp"

section \<open>The environment: clock and HTTP transport\<close>

datatype verb = GET | POST | PATCH

text \<open>One call of \<open>session.get\<close>, \<open>session.post\<close> or \<open>session.patch\<close> with its arguments.\<close>

record request =
  r_verb :: verb
  r_url :: string
  r_params :: pyval
  r_data :: pyval
  r_json :: pyval

text \<open>
  What comes back: no response at all (the library raises), or a status code with the
  body parsed as JSON (\<open>None\<close> when the body is not JSON).
\<close>

datatype reply = NoReply | Reply nat "pyval option"

text \<open>
  \<open>clock\<close> is the value that \<open>timestamp()\<close> computes at the moment of the call, an
  integer number of milliseconds; \<open>send\<close> is the controller together with the session's
  cookies, as seen by one request.
\<close>

record env =
  clock :: int
  send :: "request \<Rightarrow> reply"

definition timestamp :: "env \<Rightarrow> int" where
  "timestamp e = clock e"

text \<open>
  The three library steps that each request primitive performs in a row: the session
  call, \<open>response.raise_for_status()\<close> (an error for a status from 400 to 599), and
  \<open>response.json()\<close>.
\<close>

definition fetch :: "env \<Rightarrow> request \<Rightarrow> error + pyval" where
  "fetch e req =
     (case send e req of
        NoReply \<Rightarrow> Inl TransportError
      | Reply status body \<Rightarrow>
          if 400 \<le> status \<and> status < 600 then Inl (HTTPError status)
          else (case body of None \<Rightarrow> Inl JSONDecodeError | Some js \<Rightarrow> Inr js))"

section \<open>OmadaError\<close>

text \<open>
  The constructor of \<open>OmadaError\<close>: the pair of attributes \<open>(errorCode, msg)\<close>, or the
  exception that the constructor itself raises.
\<close>

definition OmadaError_init :: "pyval \<Rightarrow> error + pyval \<times> pyval" where
  "OmadaError_init js =
     (if js = PNone then Inl (TypeError ''json cannot be None'')
      else
        (case py_in ''errorCode'' js of
           Inl e \<Rightarrow> Inl e
         | Inr has_code \<Rightarrow>
            (case (if has_code then py_getitem js ''errorCode'' else Inr (PInt 0)) of
               Inl e \<Rightarrow> Inl e
             | Inr code \<Rightarrow>
                (case py_in ''msg'' js of
                   Inl e \<Rightarrow> Inl e
                 | Inr has_msg \<Rightarrow>
                    if has_msg then
                      (case py_getitem js ''msg'' of
                         Inl e \<Rightarrow> Inl e
                       | Inr m \<Rightarrow>
                          (case py_quote m of
                             Inl e \<Rightarrow> Inl e
                           | Inr q \<Rightarrow> Inr (code, q)))
                    else Inr (code, PNone)))))"

text \<open>\<open>raise OmadaError(json)\<close>: the exception that reaches the caller.\<close>

definition raise_OmadaError :: "pyval \<Rightarrow> error" where
  "raise_OmadaError js =
     (case OmadaError_init js of Inl e \<Rightarrow> e | Inr (code, m) \<Rightarrow> OmadaError code m)"

section \<open>The client\<close>

text \<open>
  The attributes of an \<open>Omada\<close> instance. \<open>baseurl\<close> is \<open>None\<close> when the configuration
  file has no such option. \<open>config\<close> is the configuration parser after it has read
  the file, \<open>None\<close> when the instance was built from an explicit base URL: it maps
  the name of each section it has to that section, and a section maps an option name
  to the outcome of the section's \<open>get\<close>, which is the parser's business (the value
  after inheritance from the default section and interpolation, \<open>None\<close> for an option
  that is missing, or the exception that interpolation raises). \<open>token\<close> is \<open>PNone\<close>
  until a login stores one.
\<close>

type_synonym cfg_section = "string \<Rightarrow> error + pyval"

record omada =
  baseurl :: "string option"
  site :: string
  verify :: bool
  warnings :: bool
  config :: "(string \<rightharpoonup> cfg_section) option"
  token :: pyval

definition ApiPath :: string where
  "ApiPath = ''/api/v2''"

definition url_for :: "omada \<Rightarrow> string \<Rightarrow> error + string" where
  "url_for self path =
     (case baseurl self of
        None \<Rightarrow> Inl TypeErrorOp
      | Some b \<Rightarrow> Inr (b @ ApiPath @ path))"

text \<open>
  The request primitives return the outcome of the call and the list of requests that
  were handed to the session.
\<close>

definition get ::
  "omada \<Rightarrow> env \<Rightarrow> string \<Rightarrow> pyval \<Rightarrow> pyval \<Rightarrow> pyval \<Rightarrow> (error + pyval) \<times> request list" where
  "get self e path params' data' json' =
     (let params' =
        (if params' = PNone \<and> token self \<noteq> PNone
         then PDict [(''token'', token self), (''_'', PInt (timestamp e))]
         else params')
      in case url_for self path of
           Inl err \<Rightarrow> (Inl err, [])
         | Inr u \<Rightarrow>
            (let req = \<lparr>r_verb = GET, r_url = u, r_params = params',
                        r_data = data', r_json = json'\<rparr>
             in (case fetch e req of
                   Inl err \<Rightarrow> Inl err
                 | Inr js \<Rightarrow>
                    (case py_getitem js ''errorCode'' of
                       Inl err \<Rightarrow> Inl err
                     | Inr code \<Rightarrow>
                        if py_eq_0 code then
                          (case py_in ''result'' js of
                             Inl err \<Rightarrow> Inl err
                           | Inr has \<Rightarrow>
                              if has then py_getitem js ''result'' else Inr PNone)
                        else Inl (raise_OmadaError js)),
                 [req])))"

definition post ::
  "omada \<Rightarrow> env \<Rightarrow> string \<Rightarrow> pyval \<Rightarrow> pyval \<Rightarrow> pyval \<Rightarrow> (error + pyval) \<times> request list" where
  "post self e path params' data' json' =
     (let params' =
        (if params' = PNone \<and> token self \<noteq> PNone
         then PDict [(''token'', token self), (''_'', PInt (timestamp e))]
         else params')
      in case url_for self path of
           Inl err \<Rightarrow> (Inl err, [])
         | Inr u \<Rightarrow>
            (let req = \<lparr>r_verb = POST, r_url = u, r_params = params',
                        r_data = data', r_json = json'\<rparr>
             in (case fetch e req of
                   Inl err \<Rightarrow> Inl err
                 | Inr js \<Rightarrow>
                    (case py_getitem js ''errorCode'' of
                       Inl err \<Rightarrow> Inl err
                     | Inr code \<Rightarrow>
                        if py_eq_0 code then
                          (case py_in ''result'' js of
                             Inl err \<Rightarrow> Inl err
                           | Inr has \<Rightarrow>
                              if has then py_getitem js ''result'' else Inr PNone)
                        else Inl (raise_OmadaError js)),
                 [req])))"

definition patch ::
  "omada \<Rightarrow> env \<Rightarrow> string \<Rightarrow> pyval \<Rightarrow> pyval \<Rightarrow> pyval \<Rightarrow> (error + pyval) \<times> request list" where
  "patch self e path params' data' json' =
     (let params' =
        (if params' = PNone \<and> token self \<noteq> PNone
         then PDict [(''token'', token self), (''_'', PInt (timestamp e))]
         else params')
      in case url_for self path of
           Inl err \<Rightarrow> (Inl err, [])
         | Inr u \<Rightarrow>
            (let req = \<lparr>r_verb = PATCH, r_url = u, r_params = params',
                        r_data = data', r_json = json'\<rparr>
             in (case fetch e req of
                   Inl err \<Rightarrow> Inl err
                 | Inr js \<Rightarrow>
                    (case py_getitem js ''errorCode'' of
                       Inl err \<Rightarrow> Inl err
                     | Inr code \<Rightarrow>
                        if py_eq_0 code then
                          (case py_in ''result'' js of
                             Inl err \<Rightarrow> Inl err
                           | Inr has \<Rightarrow>
                              if has then py_getitem js ''result'' else Inr PNone)
                        else Inl (raise_OmadaError js)),
                 [req])))"

section \<open>Authentication\<close>

text \<open>
  \<open>self.config['omada'].get(option)\<close>: a missing section raises \<open>KeyError\<close>; otherwise
  the outcome is that of the section's \<open>get\<close>.
\<close>

definition config_get :: "(string \<rightharpoonup> cfg_section) \<Rightarrow> string \<Rightarrow> error + pyval" where
  "config_get cfg opt =
     (case cfg ''omada'' of
        None \<Rightarrow> Inl (KeyError ''omada'')
      | Some sec \<Rightarrow> sec opt)"

text \<open>
  \<open>login\<close> returns the outcome, the instance after the call (the token is an attribute
  of it) and the requests sent. \<open>credentials\<close> is the \<open>if\<close> block at its head:
  what it leaves in \<open>username\<close> and \<open>password\<close>, or the exception it raises.
\<close>

definition credentials :: "omada \<Rightarrow> pyval \<Rightarrow> pyval \<Rightarrow> error + pyval \<times> pyval" where
  "credentials self username password =
     (if username = PNone \<and> password = PNone then
        (case config self of
           None \<Rightarrow> Inl (TypeError ''username and password cannot be None'')
         | Some cfg \<Rightarrow>
            (case config_get cfg ''username'' of
               Inl err \<Rightarrow> Inl err
             | Inr u \<Rightarrow>
                (case config_get cfg ''password'' of
                   Inl err \<Rightarrow> Inl err
                 | Inr p \<Rightarrow> Inr (u, p))))
      else Inr (username, password))"

definition login ::
  "omada \<Rightarrow> env \<Rightarrow> pyval \<Rightarrow> pyval \<Rightarrow> (error + pyval) \<times> omada \<times> request list" where
  "login self e username password =
     (case credentials self username password of
        Inl err \<Rightarrow> (Inl err, self, [])
      | Inr (u, p) \<Rightarrow>
         (case post self e ''/login'' PNone PNone
                 (PDict [(''username'', u), (''password'', p)]) of
            (Inl err, sent) \<Rightarrow> (Inl err, self, sent)
          | (Inr result, sent) \<Rightarrow>
             (case py_getitem result ''token'' of
                Inl err \<Rightarrow> (Inl err, self, sent)
              | Inr t \<Rightarrow> (Inr result, self\<lparr>token := t\<rparr>, sent))))"

definition logout :: "omada \<Rightarrow> env \<Rightarrow> (error + pyval) \<times> request list" where
  "logout self e = post self e ''/logout'' PNone PNone PNone"

definition getLoginStatus :: "omada \<Rightarrow> env \<Rightarrow> (error + pyval) \<times> request list" where
  "getLoginStatus self e = get self e ''/loginStatus'' PNone PNone PNone"

definition getCurrentUser :: "omada \<Rightarrow> env \<Rightarrow> (error + pyval) \<times> request list" where
  "getCurrentUser self e = get self e ''/users/current'' PNone PNone PNone"

section \<open>Resource accessors\<close>

text \<open>\<open>str\<close> of an integer, as an f-string renders it.\<close>

fun str_nat :: "nat \<Rightarrow> string" where
  "str_nat n =
     (if n < 10 then [''0123456789'' ! n]
      else str_nat (n div 10) @ [''0123456789'' ! (n mod 10)])"

definition str_int :: "int \<Rightarrow> string" where
  "str_int i = (if i < 0 then CHR ''-'' # str_nat (nat (- i)) else str_nat (nat i))"

definition IPGroup :: int where "IPGroup = 0"
definition PortGroup :: int where "PortGroup = 1"
definition MACGroup :: int where "MACGroup = 2"

text \<open>\<open>if site is None: site = self.site\<close>\<close>

definition site_or_default :: "omada \<Rightarrow> string option \<Rightarrow> string" where
  "site_or_default self site' = (case site' of None \<Rightarrow> site self | Some s \<Rightarrow> s)"

text \<open>\<open>return result['data']\<close> after a request primitive.\<close>

definition index_data :: "(error + pyval) \<times> request list \<Rightarrow> (error + pyval) \<times> request list" where
  "index_data r =
     (case r of
        (Inl err, sent) \<Rightarrow> (Inl err, sent)
      | (Inr result, sent) \<Rightarrow> (py_getitem result ''data'', sent))"

definition getSiteGroups ::
  "omada \<Rightarrow> env \<Rightarrow> string option \<Rightarrow> int option \<Rightarrow> (error + pyval) \<times> request list" where
  "getSiteGroups self e site' type' =
     (let s = site_or_default self site' in
      index_data
        (case type' of
           None \<Rightarrow> get self e (''/sites/'' @ s @ ''/setting/profiles/groups'') PNone PNone PNone
         | Some t \<Rightarrow>
            get self e (''/sites/'' @ s @ ''/setting/profiles/groups/'' @ str_int t)
              PNone PNone PNone))"

definition getPortalCandidates ::
  "omada \<Rightarrow> env \<Rightarrow> string option \<Rightarrow> (error + pyval) \<times> request list" where
  "getPortalCandidates self e site' =
     (let s = site_or_default self site' in
      get self e (''/sites/'' @ s @ ''/setting/portal/candidates'') PNone PNone PNone)"

definition getRadiusProfiles ::
  "omada \<Rightarrow> env \<Rightarrow> string option \<Rightarrow> (error + pyval) \<times> request list" where
  "getRadiusProfiles self e site' =
     (let s = site_or_default self site' in
      get self e (''/sites/'' @ s @ ''/setting/radiusProfiles'') PNone PNone PNone)"

definition getScenarios :: "omada \<Rightarrow> env \<Rightarrow> (error + pyval) \<times> request list" where
  "getScenarios self e = get self e ''/scenarios'' PNone PNone PNone"

definition getSiteDevices ::
  "omada \<Rightarrow> env \<Rightarrow> string option \<Rightarrow> (error + pyval) \<times> request list" where
  "getSiteDevices self e site' =
     (let s = site_or_default self site' in
      get self e (''/sites/'' @ s @ ''/devices'') PNone PNone PNone)"

text \<open>
  In the source the \<open>def\<close> line of \<open>getSiteClients\<close> (line 238) is followed by
  statements at its own indentation (lines 239 to 241): the method has no body. The
  interpreter refuses this with \<open>IndentationError\<close> when it compiles the file, so the
  statement \<open>return self.get(...)\<close> on line 241 is never run and a caller who wants
  the clients of a site gets that exception and no request.
\<close>

definition getSiteClients ::
  "omada \<Rightarrow> env \<Rightarrow> string option \<Rightarrow> (error + pyval) \<times> request list" where
  "getSiteClients self e site' = (Inl IndentationError, [])"

definition getTimeRanges ::
  "omada \<Rightarrow> env \<Rightarrow> string option \<Rightarrow> (error + pyval) \<times> request list" where
  "getTimeRanges self e site' =
     (let s = site_or_default self site' in
      get self e (''/sites/'' @ s @ ''/setting/profiles/timeranges'') PNone PNone PNone)"

definition getWirelessGroups ::
  "omada \<Rightarrow> env \<Rightarrow> string option \<Rightarrow> (error + pyval) \<times> request list" where
  "getWirelessGroups self e site' =
     (let s = site_or_default self site' in
      index_data (get self e (''/sites/'' @ s @ ''/setting/wlans'') PNone PNone PNone))"

definition getWirelessNetworks ::
  "omada \<Rightarrow> env \<Rightarrow> string \<Rightarrow> string option \<Rightarrow> (error + pyval) \<times> request list" where
  "getWirelessNetworks self e group' site' =
     (let s = site_or_default self site' in
      index_data
        (get self e (''/sites/'' @ s @ ''/setting/wlans/'' @ group' @ ''/ssids'')
           PNone PNone PNone))"

section \<open>Site settings\<close>

definition beacon_warning :: string where
  "beacon_warning = ''settings['' @ [CHR 0x27] @ ''beaconControl'' @ [CHR 0x27] @
     ''] was removed as it causes an error''"

text \<open>
  The work-around shared by both settings methods, applied to the object \<open>v\<close>: the
  outcome is the object after the \<open>if\<close> block, with the warnings passed to
  \<open>warnings.warn\<close> on the way (under the default filters \<open>warn\<close> returns).
\<close>

definition strip_beaconControl :: "omada \<Rightarrow> pyval \<Rightarrow> (error + pyval) \<times> string list" where
  "strip_beaconControl self v =
     (case py_in ''beaconControl'' v of
        Inl err \<Rightarrow> (Inl err, [])
      | Inr present \<Rightarrow>
         if present then
           (py_delitem v ''beaconControl'',
            if warnings self then [beacon_warning] else [])
         else (Inr v, []))"

text \<open>\<open>getSiteSettings\<close> returns the outcome, the requests sent and the warnings.\<close>

definition getSiteSettings ::
  "omada \<Rightarrow> env \<Rightarrow> string option \<Rightarrow> (error + pyval) \<times> request list \<times> string list" where
  "getSiteSettings self e site' =
     (let s = site_or_default self site' in
      case get self e (''/sites/'' @ s @ ''/setting'') PNone PNone PNone of
        (Inl err, sent) \<Rightarrow> (Inl err, sent, [])
      | (Inr result, sent) \<Rightarrow>
         (case strip_beaconControl self result of
            (r, ws) \<Rightarrow> (r, sent, ws)))"

text \<open>
  The caller of \<open>setSiteSettings\<close> passes a reference to its own object, so the method
  works on a store of objects: \<open>settings\<close> is an address, \<open>h settings\<close> the object it
  refers to. The method returns the outcome, the store after the call, the requests
  sent and the warnings. The request body is the object as it is when \<open>patch\<close> runs.
\<close>

type_synonym addr = nat
type_synonym store = "addr \<Rightarrow> pyval"

definition setSiteSettings ::
  "omada \<Rightarrow> env \<Rightarrow> store \<Rightarrow> addr \<Rightarrow> string option \<Rightarrow>
     (error + pyval) \<times> store \<times> request list \<times> string list" where
  "setSiteSettings self e h settings site' =
     (let s = site_or_default self site' in
      case strip_beaconControl self (h settings) of
        (Inl err, ws) \<Rightarrow> (Inl err, h, [], ws)
      | (Inr v, ws) \<Rightarrow>
         (let h' = h(settings := v) in
          case patch self e (''/sites/'' @ s @ ''/setting'') PNone PNone (h' settings) of
            (r, sent) \<Rightarrow> (r, h', sent, ws)))"

section \<open>Example instances and controllers\<close>

text \<open>An instance built from an explicit base URL, logged in with the token \<open>t0k3n\<close>.\<close>

definition example_client :: omada where
  "example_client =
     \<lparr>baseurl = Some ''https://controller:8043'', site = ''Default'', verify = True,
      warnings = True, config = None, token = PStr ''t0k3n''\<rparr>"

text \<open>
  The section of a configuration file that sets only \<open>baseurl\<close>: \<open>get\<close> gives
  \<open>None\<close> for every other option.
\<close>

definition baseurl_only :: cfg_section where
  "baseurl_only opt =
     (if opt = ''baseurl'' then Inr (PStr ''https://controller:8043'') else Inr PNone)"

text \<open>
  An instance built from a configuration file whose only section is \<open>omada\<close>, which
  sets only \<open>baseurl\<close>; nobody has logged in yet.
\<close>

definition configured_client :: omada where
  "configured_client =
     \<lparr>baseurl = Some ''https://controller:8043'', site = ''Default'', verify = True,
      warnings = True,
      config = Some [''omada'' \<mapsto> baseurl_only],
      token = PNone\<rparr>"

text \<open>A controller that answers every request with status 200 and the body \<open>js\<close>.\<close>

definition controller :: "pyval \<Rightarrow> env" where
  "controller js = \<lparr>clock = 1700000000000, send = (\<lambda>req. Reply 200 (Some js))\<rparr>"

text \<open>A store in which address 0 holds a settings object of the caller.\<close>

definition example_store :: store where
  "example_store =
     (\<lambda>a. PNone)(0 := PDict [(''beaconControl'', PDict [(''enable'', PBool True)]),
                              (''name'', PStr ''home'')])"

section \<open>Auxiliary facts\<close>

lemma map_of_size_less: "map_of kvs k = Some v \<Longrightarrow> size v < size (PDict kvs)"
  by (induction kvs) (auto split: if_splits)

lemma result_not_envelope: "map_of kvs k = Some v \<Longrightarrow> v \<noteq> PDict kvs"
  using map_of_size_less by blast

lemma in_keys_iff: "k \<in> fst ` set kvs \<longleftrightarrow> map_of kvs k \<noteq> None"
  by (simp add: map_of_eq_None_iff)

lemma fetch_ok:
  "send e req = Reply st (Some js) \<Longrightarrow> \<not> (400 \<le> st \<and> st < 600) \<Longrightarrow> fetch e req = Inr js"
  by (simp add: fetch_def)

subsection \<open>What each primitive hands to the session\<close>

lemma get_sent:
  "snd (get self e path p d j) =
     (case baseurl self of
        None \<Rightarrow> []
      | Some b \<Rightarrow>
          [\<lparr>r_verb = GET, r_url = b @ ApiPath @ path,
            r_params = (if p = PNone \<and> token self \<noteq> PNone
                        then PDict [(''token'', token self), (''_'', PInt (timestamp e))]
                        else p),
            r_data = d, r_json = j\<rparr>])"
  by (cases "baseurl self") (simp_all add: get_def url_for_def Let_def)

lemma post_sent:
  "snd (post self e path p d j) =
     (case baseurl self of
        None \<Rightarrow> []
      | Some b \<Rightarrow>
          [\<lparr>r_verb = POST, r_url = b @ ApiPath @ path,
            r_params = (if p = PNone \<and> token self \<noteq> PNone
                        then PDict [(''token'', token self), (''_'', PInt (timestamp e))]
                        else p),
            r_data = d, r_json = j\<rparr>])"
  by (cases "baseurl self") (simp_all add: post_def url_for_def Let_def)

lemma patch_sent:
  "snd (patch self e path p d j) =
     (case baseurl self of
        None \<Rightarrow> []
      | Some b \<Rightarrow>
          [\<lparr>r_verb = PATCH, r_url = b @ ApiPath @ path,
            r_params = (if p = PNone \<and> token self \<noteq> PNone
                        then PDict [(''token'', token self), (''_'', PInt (timestamp e))]
                        else p),
            r_data = d, r_json = j\<rparr>])"
  by (cases "baseurl self") (simp_all add: patch_def url_for_def Let_def)

subsection \<open>The outcome of a primitive whose request got a parsed envelope\<close>

lemma get_ok:
  assumes "req \<in> set (snd (get self e path p d j))"
    and "fetch e req = Inr (PDict kvs)"
    and "map_of kvs ''errorCode'' = Some c" and "py_eq_0 c"
  shows "fst (get self e path p d j) =
           Inr (case map_of kvs ''result'' of None \<Rightarrow> PNone | Some r \<Rightarrow> r)"
proof (cases "baseurl self")
  case None
  with assms(1) show ?thesis by (simp add: get_sent)
next
  case (Some b)
  with assms show ?thesis
    by (cases "map_of kvs ''result''")
       (simp_all add: get_def url_for_def Let_def get_sent in_keys_iff)
qed

lemma post_ok:
  assumes "req \<in> set (snd (post self e path p d j))"
    and "fetch e req = Inr (PDict kvs)"
    and "map_of kvs ''errorCode'' = Some c" and "py_eq_0 c"
  shows "fst (post self e path p d j) =
           Inr (case map_of kvs ''result'' of None \<Rightarrow> PNone | Some r \<Rightarrow> r)"
proof (cases "baseurl self")
  case None
  with assms(1) show ?thesis by (simp add: post_sent)
next
  case (Some b)
  with assms show ?thesis
    by (cases "map_of kvs ''result''")
       (simp_all add: post_def url_for_def Let_def post_sent in_keys_iff)
qed

lemma patch_ok:
  assumes "req \<in> set (snd (patch self e path p d j))"
    and "fetch e req = Inr (PDict kvs)"
    and "map_of kvs ''errorCode'' = Some c" and "py_eq_0 c"
  shows "fst (patch self e path p d j) =
           Inr (case map_of kvs ''result'' of None \<Rightarrow> PNone | Some r \<Rightarrow> r)"
proof (cases "baseurl self")
  case None
  with assms(1) show ?thesis by (simp add: patch_sent)
next
  case (Some b)
  with assms show ?thesis
    by (cases "map_of kvs ''result''")
       (simp_all add: patch_def url_for_def Let_def patch_sent in_keys_iff)
qed

lemma get_err:
  assumes "req \<in> set (snd (get self e path p d j))"
    and "fetch e req = Inr (PDict kvs)"
    and "map_of kvs ''errorCode'' = Some c" and "\<not> py_eq_0 c"
  shows "fst (get self e path p d j) = Inl (raise_OmadaError (PDict kvs))"
proof (cases "baseurl self")
  case None
  with assms(1) show ?thesis by (simp add: get_sent)
next
  case (Some b)
  with assms show ?thesis
    by (simp add: get_def url_for_def Let_def get_sent)
qed

lemma post_err:
  assumes "req \<in> set (snd (post self e path p d j))"
    and "fetch e req = Inr (PDict kvs)"
    and "map_of kvs ''errorCode'' = Some c" and "\<not> py_eq_0 c"
  shows "fst (post self e path p d j) = Inl (raise_OmadaError (PDict kvs))"
proof (cases "baseurl self")
  case None
  with assms(1) show ?thesis by (simp add: post_sent)
next
  case (Some b)
  with assms show ?thesis
    by (simp add: post_def url_for_def Let_def post_sent)
qed

lemma patch_err:
  assumes "req \<in> set (snd (patch self e path p d j))"
    and "fetch e req = Inr (PDict kvs)"
    and "map_of kvs ''errorCode'' = Some c" and "\<not> py_eq_0 c"
  shows "fst (patch self e path p d j) = Inl (raise_OmadaError (PDict kvs))"
proof (cases "baseurl self")
  case None
  with assms(1) show ?thesis by (simp add: patch_sent)
next
  case (Some b)
  with assms show ?thesis
    by (simp add: patch_def url_for_def Let_def patch_sent)
qed

subsection \<open>The exception built from an envelope\<close>

lemma raise_OmadaError_no_msg:
  "map_of kvs ''errorCode'' = Some c \<Longrightarrow> map_of kvs ''msg'' = None \<Longrightarrow>
     raise_OmadaError (PDict kvs) = OmadaError c PNone"
  by (simp add: raise_OmadaError_def OmadaError_init_def in_keys_iff)

lemma raise_OmadaError_str_msg:
  "map_of kvs ''errorCode'' = Some c \<Longrightarrow> map_of kvs ''msg'' = Some (PStr s) \<Longrightarrow>
     raise_OmadaError (PDict kvs) = OmadaError c (PStr (CHR 0x22 # s @ [CHR 0x22]))"
  by (simp add: raise_OmadaError_def OmadaError_init_def in_keys_iff)

subsection \<open>The work-around for beaconControl\<close>

lemma strip_dict:
  "strip_beaconControl self (PDict kvs) =
     (Inr (PDict (AList.delete ''beaconControl'' kvs)),
      if ''beaconControl'' \<in> fst ` set kvs \<and> warnings self then [beacon_warning] else [])"
  by (simp add: strip_beaconControl_def)

lemma strip_absent:
  "strip_beaconControl self v = (Inr r, ws) \<Longrightarrow> py_in ''beaconControl'' r = Inr False"
  by (cases v)
     (auto simp: strip_beaconControl_def AList.delete_notin_dom split: if_splits)

lemma getSiteSettings_strips:
  assumes "fst (getSiteSettings self e site') = Inr r"
  shows "py_in ''beaconControl'' r = Inr False"
proof -
  let ?g = "get self e (''/sites/'' @ site_or_default self site' @ ''/setting'') PNone PNone PNone"
  obtain out sent where g: "?g = (out, sent)" by (cases ?g)
  show ?thesis
  proof (cases out)
    case (Inl err)
    with g assms show ?thesis by (simp add: getSiteSettings_def Let_def)
  next
    case (Inr result)
    obtain r' ws where s: "strip_beaconControl self result = (r', ws)"
      by (cases "strip_beaconControl self result")
    with g Inr assms have "r' = Inr r" by (simp add: getSiteSettings_def Let_def)
    with s show ?thesis using strip_absent by simp
  qed
qed

lemma setSiteSettings_body:
  assumes "req \<in> set (fst (snd (snd (setSiteSettings self e h settings site'))))"
  shows "py_in ''beaconControl'' (r_json req) = Inr False"
proof -
  obtain out ws where s: "strip_beaconControl self (h settings) = (out, ws)"
    by (cases "strip_beaconControl self (h settings)")
  show ?thesis
  proof (cases out)
    case (Inl err)
    with s assms show ?thesis by (simp add: setSiteSettings_def Let_def)
  next
    case (Inr v)
    let ?p = "patch self e (''/sites/'' @ site_or_default self site' @ ''/setting'')
                PNone PNone v"
    from s Inr have sent: "fst (snd (snd (setSiteSettings self e h settings site'))) = snd ?p"
      by (simp add: setSiteSettings_def Let_def split: prod.splits)
    from s Inr have "py_in ''beaconControl'' v = Inr False" using strip_absent by simp
    moreover from assms sent have "r_json req = v"
      by (cases "baseurl self") (auto simp: patch_sent)
    ultimately show ?thesis by simp
  qed
qed

subsection \<open>Credentials of a login\<close>

text \<open>
  Without arguments and without a configuration, \<open>login\<close> raises before any request;
  with a configuration that has both options, the request body carries them.
\<close>

lemma login_without_config:
  "config self = None \<Longrightarrow>
     login self e PNone PNone =
       (Inl (TypeError ''username and password cannot be None''), self, [])"
  by (simp add: login_def credentials_def)

lemma login_sent:
  "credentials self username password = Inr (u, p) \<Longrightarrow>
     snd (snd (login self e username password)) =
       snd (post self e ''/login'' PNone PNone (PDict [(''username'', u), (''password'', p)]))"
  by (auto simp: login_def split: prod.splits sum.splits)

lemma login_falls_back:
  assumes "config self = Some cfg" and "cfg ''omada'' = Some sec"
    and "sec ''username'' = Inr u" and "sec ''password'' = Inr p"
  shows "snd (snd (login self e PNone PNone)) =
           snd (post self e ''/login'' PNone PNone
              (PDict [(''username'', u), (''password'', p)]))"
  using assms by (intro login_sent) (simp add: credentials_def config_get_def)

lemma login_answered:
  assumes "req1 \<in> set (snd (snd (login self e1 username password)))"
    and "fetch e1 req1 = Inr (PDict kvs1)"
    and "map_of kvs1 ''errorCode'' = Some c1" and "py_eq_0 c1"
    and "map_of kvs1 ''result'' = Some (PDict rkvs)"
    and "map_of rkvs ''token'' = Some t"
  shows "login self e1 username password = (Inr (PDict rkvs), self\<lparr>token := t\<rparr>, [req1])"
proof (cases "credentials self username password")
  case (Inl err)
  with assms(1) show ?thesis by (simp add: login_def)
next
  case (Inr up)
  obtain u p where up: "up = (u, p)" by (cases up)
  let ?post = "post self e1 ''/login'' PNone PNone
                 (PDict [(''username'', u), (''password'', p)])"
  from Inr up have c: "credentials self username password = Inr (u, p)" by simp
  with assms(1) have in_post: "req1 \<in> set (snd ?post)"
    by (simp add: login_sent)
  then have sent: "snd ?post = [req1]"
    by (cases "baseurl self") (simp_all add: post_sent)
  have "fst ?post = Inr (case map_of kvs1 ''result'' of None \<Rightarrow> PNone | Some r \<Rightarrow> r)"
    using in_post assms(2,3,4) by (rule post_ok)
  with assms(5) have "fst ?post = Inr (PDict rkvs)" by simp
  with sent have "?post = (Inr (PDict rkvs), [req1])"
    by (simp add: prod_eq_iff)
  with c assms(6) show ?thesis by (simp add: login_def)
qed

subsection \<open>Accessors built on get\<close>

lemma index_data_snd: "snd (index_data x) = snd x"
  by (cases x) (simp add: index_data_def split: sum.splits)

lemma index_data_fst:
  "fst (index_data x) = (case fst x of Inl err \<Rightarrow> Inl err | Inr v \<Rightarrow> py_getitem v ''data'')"
  by (cases x) (simp add: index_data_def split: sum.splits)

lemma getSiteSettings_sent:
  "fst (snd (getSiteSettings self e site')) =
     snd (get self e (''/sites/'' @ site_or_default self site' @ ''/setting'') PNone PNone PNone)"
  by (simp add: getSiteSettings_def Let_def split: prod.splits sum.splits)

lemma getSiteSettings_fst:
  "fst (getSiteSettings self e site') =
     (case fst (get self e (''/sites/'' @ site_or_default self site' @ ''/setting'')
                  PNone PNone PNone) of
        Inl err \<Rightarrow> Inl err
      | Inr result \<Rightarrow> fst (strip_beaconControl self result))"
  by (simp add: getSiteSettings_def Let_def split: prod.splits sum.splits)

lemma strip_unchanged:
  "py_in ''beaconControl'' v = Inr False \<Longrightarrow> fst (strip_beaconControl self v) = Inr v"
  by (simp add: strip_beaconControl_def)

lemma strip_raises:
  "py_in ''beaconControl'' v = Inl err \<Longrightarrow> fst (strip_beaconControl self v) = Inl err"
  by (simp add: strip_beaconControl_def)

lemma strip_present:
  "py_in ''beaconControl'' v = Inr True \<Longrightarrow>
     fst (strip_beaconControl self v) = py_delitem v ''beaconControl''"
  by (simp add: strip_beaconControl_def)

section \<open>Properties of the request primitives\<close>

text \<open>
  C1. Whichever of \<open>get\<close>, \<open>post\<close> and \<open>patch\<close> is called: when the request it sent
  was answered, without an HTTP error status, by a parsed envelope whose \<open>errorCode\<close>
  equals 0, the call returns the value under the envelope's \<open>result\<close> key, and \<open>None\<close>
  when the envelope has no such key. What it returns is never the envelope itself.
\<close>

theorem success_returns_result:
  assumes "prim \<in> {get, post, patch}"
    and "req \<in> set (snd (prim self e path p d j))"
    and "send e req = Reply st (Some (PDict kvs))"
    and "\<not> (400 \<le> st \<and> st < 600)"
    and "map_of kvs ''errorCode'' = Some c"
    and "py_eq_0 c"
  shows "fst (prim self e path p d j) =
           Inr (case map_of kvs ''result'' of None \<Rightarrow> PNone | Some r \<Rightarrow> r) \<and>
         fst (prim self e path p d j) \<noteq> Inr (PDict kvs)"
proof -
  have f: "fetch e req = Inr (PDict kvs)"
    using assms(3,4) by (rule fetch_ok)
  from assms(1) have out: "fst (prim self e path p d j) =
      Inr (case map_of kvs ''result'' of None \<Rightarrow> PNone | Some r \<Rightarrow> r)"
    using assms(2,5,6) f get_ok post_ok patch_ok by auto
  have "(case map_of kvs ''result'' of None \<Rightarrow> PNone | Some r \<Rightarrow> r) \<noteq> PDict kvs"
    by (cases "map_of kvs ''result''") (simp_all add: result_not_envelope)
  with out show ?thesis by simp
qed

theorem success_returns_result_witness:
  "fst (get example_client
          (controller (PDict [(''errorCode'', PInt 0), (''result'', PList [PInt 1])]))
          ''/scenarios'' PNone PNone PNone) = Inr (PList [PInt 1]) \<and>
   fst (post example_client
          (controller (PDict [(''errorCode'', PInt 0)]))
          ''/logout'' PNone PNone PNone) = Inr PNone \<and>
   fst (patch example_client
          (controller (PDict [(''errorCode'', PInt 0), (''result'', PDict [])]))
          ''/sites/Default/setting'' PNone PNone (PDict [])) = Inr (PDict [])"
  using
    success_returns_result [of get
      "\<lparr>r_verb = GET, r_url = ''https://controller:8043/api/v2/scenarios'',
        r_params = PDict [(''token'', PStr ''t0k3n''), (''_'', PInt 1700000000000)],
        r_data = PNone, r_json = PNone\<rparr>"
      example_client "controller (PDict [(''errorCode'', PInt 0), (''result'', PList [PInt 1])])"
      "''/scenarios''" PNone PNone PNone 200
      "[(''errorCode'', PInt 0), (''result'', PList [PInt 1])]" "PInt 0"]
    success_returns_result [of post
      "\<lparr>r_verb = POST, r_url = ''https://controller:8043/api/v2/logout'',
        r_params = PDict [(''token'', PStr ''t0k3n''), (''_'', PInt 1700000000000)],
        r_data = PNone, r_json = PNone\<rparr>"
      example_client "controller (PDict [(''errorCode'', PInt 0)])"
      "''/logout''" PNone PNone PNone 200
      "[(''errorCode'', PInt 0)]" "PInt 0"]
    success_returns_result [of patch
      "\<lparr>r_verb = PATCH, r_url = ''https://controller:8043/api/v2/sites/Default/setting'',
        r_params = PDict [(''token'', PStr ''t0k3n''), (''_'', PInt 1700000000000)],
        r_data = PNone, r_json = PDict []\<rparr>"
      example_client "controller (PDict [(''errorCode'', PInt 0), (''result'', PDict [])])"
      "''/sites/Default/setting''" PNone PNone "PDict []" 200
      "[(''errorCode'', PInt 0), (''result'', PDict [])]" "PInt 0"]
  by (simp add: get_sent post_sent patch_sent example_client_def controller_def
        ApiPath_def timestamp_def)


text \<open>
  C2, as the claim states it, fails: the \<open>msg\<close> attribute of the exception is not the
  envelope's \<open>msg\<close> but that string between two double-quote characters.
\<close>

theorem error_msg_is_quoted:
  "fst (get example_client
          (controller (PDict [(''errorCode'', PInt (- 1001)), (''msg'', PStr ''denied'')]))
          ''/users/current'' PNone PNone PNone)
     = Inl (OmadaError (PInt (- 1001)) (PStr (CHR 0x22 # ''denied'' @ [CHR 0x22]))) \<and>
   fst (get example_client
          (controller (PDict [(''errorCode'', PInt (- 1001)), (''msg'', PStr ''denied'')]))
          ''/users/current'' PNone PNone PNone)
     \<noteq> Inl (OmadaError (PInt (- 1001)) (PStr ''denied''))"
  by (simp add: get_def url_for_def fetch_def controller_def example_client_def
        raise_OmadaError_def OmadaError_init_def Let_def)

text \<open>
  C2, amended. Whichever of \<open>get\<close>, \<open>post\<close> and \<open>patch\<close> is called: when the request
  it sent was answered, without an HTTP error status, by a parsed envelope whose
  \<open>errorCode\<close> does not equal 0, the call raises \<open>OmadaError\<close> with the envelope's
  \<open>errorCode\<close>; its \<open>msg\<close> is \<open>None\<close> when the envelope has no \<open>msg\<close>, and the
  envelope's \<open>msg\<close> enclosed in double quotes when that is a string.
\<close>

theorem nonzero_raises_OmadaError:
  assumes "prim \<in> {get, post, patch}"
    and "req \<in> set (snd (prim self e path p d j))"
    and "send e req = Reply st (Some (PDict kvs))"
    and "\<not> (400 \<le> st \<and> st < 600)"
    and "map_of kvs ''errorCode'' = Some c"
    and "\<not> py_eq_0 c"
  shows "(map_of kvs ''msg'' = None \<longrightarrow>
            fst (prim self e path p d j) = Inl (OmadaError c PNone)) \<and>
         (\<forall>s. map_of kvs ''msg'' = Some (PStr s) \<longrightarrow>
            fst (prim self e path p d j) =
              Inl (OmadaError c (PStr (CHR 0x22 # s @ [CHR 0x22]))))"
proof -
  have f: "fetch e req = Inr (PDict kvs)"
    using assms(3,4) by (rule fetch_ok)
  from assms(1) have "fst (prim self e path p d j) = Inl (raise_OmadaError (PDict kvs))"
    using assms(2,5,6) f get_err post_err patch_err by auto
  then show ?thesis
    using assms(5) by (simp add: raise_OmadaError_no_msg raise_OmadaError_str_msg)
qed

theorem nonzero_raises_OmadaError_witness:
  "fst (post example_client
          (controller (PDict [(''errorCode'', PInt (- 1001)), (''msg'', PStr ''denied'')]))
          ''/login'' PNone PNone PNone)
     = Inl (OmadaError (PInt (- 1001)) (PStr (CHR 0x22 # ''denied'' @ [CHR 0x22]))) \<and>
   fst (patch example_client
          (controller (PDict [(''errorCode'', PInt 7)]))
          ''/sites/Default/setting'' PNone PNone PNone)
     = Inl (OmadaError (PInt 7) PNone)"
  using
    nonzero_raises_OmadaError [of post
      "\<lparr>r_verb = POST, r_url = ''https://controller:8043/api/v2/login'',
        r_params = PDict [(''token'', PStr ''t0k3n''), (''_'', PInt 1700000000000)],
        r_data = PNone, r_json = PNone\<rparr>"
      example_client
      "controller (PDict [(''errorCode'', PInt (- 1001)), (''msg'', PStr ''denied'')])"
      "''/login''" PNone PNone PNone 200
      "[(''errorCode'', PInt (- 1001)), (''msg'', PStr ''denied'')]" "PInt (- 1001)"]
    nonzero_raises_OmadaError [of patch
      "\<lparr>r_verb = PATCH, r_url = ''https://controller:8043/api/v2/sites/Default/setting'',
        r_params = PDict [(''token'', PStr ''t0k3n''), (''_'', PInt 1700000000000)],
        r_data = PNone, r_json = PNone\<rparr>"
      example_client "controller (PDict [(''errorCode'', PInt 7)])"
      "''/sites/Default/setting''" PNone PNone PNone 200
      "[(''errorCode'', PInt 7)]" "PInt 7"]
  by (simp add: post_sent patch_sent example_client_def controller_def
        ApiPath_def timestamp_def)

text \<open>
  C3. Whichever of \<open>get\<close>, \<open>post\<close> and \<open>patch\<close> is called with no explicit query
  parameters while the stored token is not \<open>None\<close>: every request it hands to the
  session has as its query parameters exactly the dict of \<open>token\<close>, the stored token,
  and \<open>_\<close>, the integer that \<open>timestamp()\<close> returned; and with a base URL there is
  exactly one such request.
\<close>

theorem auto_injected_params:
  assumes "prim \<in> {get, post, patch}"
    and "token self \<noteq> PNone"
  shows "(\<forall>req \<in> set (snd (prim self e path PNone d j)).
            r_params req = PDict [(''token'', token self), (''_'', PInt (timestamp e))]) \<and>
         (baseurl self \<noteq> None \<longrightarrow> length (snd (prim self e path PNone d j)) = 1)"
  using assms by (cases "baseurl self") (auto simp: get_sent post_sent patch_sent)

theorem auto_injected_params_witness:
  "token example_client \<noteq> PNone \<and>
   map r_params (snd (get example_client (controller PNone) ''/loginStatus'' PNone PNone PNone))
     = [PDict [(''token'', PStr ''t0k3n''), (''_'', PInt 1700000000000)]] \<and>
   map r_params (snd (post example_client (controller PNone) ''/logout'' PNone PNone PNone))
     = [PDict [(''token'', PStr ''t0k3n''), (''_'', PInt 1700000000000)]] \<and>
   map r_params (snd (patch example_client (controller PNone) ''/x'' PNone PNone PNone))
     = [PDict [(''token'', PStr ''t0k3n''), (''_'', PInt 1700000000000)]]"
  using
    auto_injected_params [of get example_client "controller PNone" "''/loginStatus''" PNone PNone]
    auto_injected_params [of post example_client "controller PNone" "''/logout''" PNone PNone]
    auto_injected_params [of patch example_client "controller PNone" "''/x''" PNone PNone]
  by (simp add: get_sent post_sent patch_sent example_client_def controller_def timestamp_def)


section \<open>Properties of the site settings methods\<close>

text \<open>
  C4. Whatever \<open>getSiteSettings\<close> returns, \<open>'beaconControl' in\<close> it is false; and in
  every request that \<open>setSiteSettings\<close> hands to the session, \<open>'beaconControl' in\<close>
  the body is false.
\<close>

theorem beaconControl_stripped:
  "(\<forall>r. fst (getSiteSettings self e site') = Inr r \<longrightarrow>
         py_in ''beaconControl'' r = Inr False) \<and>
   (\<forall>req \<in> set (fst (snd (snd (setSiteSettings self e h settings site')))).
         py_in ''beaconControl'' (r_json req) = Inr False)"
  using getSiteSettings_strips setSiteSettings_body by blast

theorem beaconControl_stripped_witness:
  "fst (getSiteSettings example_client
         (controller (PDict [(''errorCode'', PInt 0),
            (''result'', PDict [(''beaconControl'', PDict []), (''name'', PStr ''home'')])]))
         None) = Inr (PDict [(''name'', PStr ''home'')]) \<and>
   py_in ''beaconControl'' (PDict [(''name'', PStr ''home'')]) = Inr False \<and>
   map r_json (fst (snd (snd (setSiteSettings example_client
         (controller (PDict [(''errorCode'', PInt 0),
            (''result'', PDict [(''beaconControl'', PDict []), (''name'', PStr ''home'')])]))
         example_store 0 None))))
     = [PDict [(''name'', PStr ''home'')]]"
  using beaconControl_stripped [where self = example_client
      and e = "controller (PDict [(''errorCode'', PInt 0),
            (''result'', PDict [(''beaconControl'', PDict []), (''name'', PStr ''home'')])])"
      and site' = None and h = example_store and settings = 0]
  by (simp add: getSiteSettings_def setSiteSettings_def strip_dict site_or_default_def
        get_def patch_def url_for_def fetch_def controller_def example_client_def
        example_store_def Let_def)

text \<open>
  C10. \<open>setSiteSettings\<close> called with a reference to a dict that has the key
  \<open>beaconControl\<close>: after the call, whatever its outcome, the object at that
  reference is the caller's dict without that key; every other key reads as before;
  no other object of the store has changed.
\<close>

theorem setSiteSettings_mutates_argument:
  assumes "h settings = PDict kvs"
    and "''beaconControl'' \<in> set (map fst kvs)"
    and "setSiteSettings self e h settings site' = (out, h', sent, ws)"
  shows "h' settings = PDict (AList.delete ''beaconControl'' kvs) \<and>
         py_in ''beaconControl'' (h' settings) = Inr False \<and>
         (\<forall>k. k \<noteq> ''beaconControl'' \<longrightarrow>
               py_getitem (h' settings) k = py_getitem (h settings) k) \<and>
         (\<forall>a. a \<noteq> settings \<longrightarrow> h' a = h a)"
proof -
  from assms(1,3) have h': "h' = h(settings := PDict (AList.delete ''beaconControl'' kvs))"
    by (simp add: setSiteSettings_def strip_dict Let_def split: prod.splits)
  then show ?thesis
    using assms(1) by (simp add: AList.delete_notin_dom)
qed

theorem setSiteSettings_mutates_argument_witness:
  "example_store 0 =
     PDict [(''beaconControl'', PDict [(''enable'', PBool True)]), (''name'', PStr ''home'')] \<and>
   fst (snd (setSiteSettings example_client (controller (PDict [(''errorCode'', PInt 0)]))
               example_store 0 None)) 0
     = PDict [(''name'', PStr ''home'')] \<and>
   fst (snd (setSiteSettings example_client (controller (PDict [(''errorCode'', PInt 0)]))
               example_store 0 None)) 1
     = example_store 1"
  using setSiteSettings_mutates_argument [of example_store 0
      "[(''beaconControl'', PDict [(''enable'', PBool True)]), (''name'', PStr ''home'')]"
      example_client "controller (PDict [(''errorCode'', PInt 0)])" None
      "fst (setSiteSettings example_client (controller (PDict [(''errorCode'', PInt 0)]))
               example_store 0 None)"
      "fst (snd (setSiteSettings example_client (controller (PDict [(''errorCode'', PInt 0)]))
               example_store 0 None))"
      "fst (snd (snd (setSiteSettings example_client (controller (PDict [(''errorCode'', PInt 0)]))
               example_store 0 None)))"
      "snd (snd (snd (setSiteSettings example_client (controller (PDict [(''errorCode'', PInt 0)]))
               example_store 0 None)))"]
  by (simp add: example_store_def)


section \<open>Properties of login and logout\<close>

text \<open>
  C5. The claim says that \<open>login\<close> without arguments never sends a request when no
  source yields credentials. On an instance whose configuration file has neither
  \<open>username\<close> nor \<open>password\<close>, the code raises nothing of its own: it posts the
  body \<open>{'username': None, 'password': None}\<close> to \<open>/login\<close>, and the only error is
  the one the controller answers with.
\<close>

theorem login_sends_missing_credentials:
  "login configured_client
     (controller (PDict [(''errorCode'', PInt (- 1)), (''msg'', PStr ''invalid'')]))
     PNone PNone =
   (Inl (OmadaError (PInt (- 1)) (PStr (CHR 0x22 # ''invalid'' @ [CHR 0x22]))),
    configured_client,
    [\<lparr>r_verb = POST, r_url = ''https://controller:8043/api/v2/login'',
      r_params = PNone, r_data = PNone,
      r_json = PDict [(''username'', PNone), (''password'', PNone)]\<rparr>])"
  by (simp add: login_def credentials_def config_get_def configured_client_def
        baseurl_only_def post_def
        url_for_def ApiPath_def fetch_def controller_def raise_OmadaError_def
        OmadaError_init_def Let_def)

text \<open>
  C9. The claim (and the comment above \<open>logout\<close>) says that a successful \<open>logout\<close>
  returns \<open>None\<close> whatever the envelope holds. The code returns what \<open>post\<close>
  returns: when the envelope has a \<open>result\<close>, \<open>logout\<close> returns that value.
\<close>

theorem logout_returns_result:
  "fst (logout example_client
         (controller (PDict [(''errorCode'', PInt 0),
                             (''result'', PDict [(''loggedOut'', PBool True)])])))
     = Inr (PDict [(''loggedOut'', PBool True)]) \<and>
   fst (logout example_client
         (controller (PDict [(''errorCode'', PInt 0),
                             (''result'', PDict [(''loggedOut'', PBool True)])])))
     \<noteq> Inr PNone"
  by (simp add: logout_def post_def url_for_def fetch_def controller_def
        example_client_def Let_def)

text \<open>
  C6. When the request that \<open>login\<close> sent is answered, without an HTTP error status,
  by a parsed envelope with \<open>errorCode\<close> 0 whose \<open>result\<close> is a dict with a \<open>token\<close>
  that is not \<open>None\<close>, then \<open>login\<close> returns that result and the instance holds that
  token. A following \<open>getCurrentUser\<close> on this instance hands exactly one request to
  the session, a GET whose query parameters are that token and the timestamp; and when
  this request is answered by a parsed envelope with \<open>errorCode\<close> 0, \<open>getCurrentUser\<close>
  returns the envelope's \<open>result\<close>.
\<close>

theorem login_then_getCurrentUser:
  assumes "req1 \<in> set (snd (snd (login self e1 username password)))"
    and "send e1 req1 = Reply st1 (Some (PDict kvs1))"
    and "\<not> (400 \<le> st1 \<and> st1 < 600)"
    and "map_of kvs1 ''errorCode'' = Some c1"
    and "py_eq_0 c1"
    and "map_of kvs1 ''result'' = Some (PDict rkvs)"
    and "map_of rkvs ''token'' = Some t"
    and "t \<noteq> PNone"
  shows "login self e1 username password = (Inr (PDict rkvs), self\<lparr>token := t\<rparr>, [req1]) \<and>
         map r_verb (snd (getCurrentUser (self\<lparr>token := t\<rparr>) e2)) = [GET] \<and>
         map r_params (snd (getCurrentUser (self\<lparr>token := t\<rparr>) e2)) =
           [PDict [(''token'', t), (''_'', PInt (timestamp e2))]] \<and>
         (\<forall>req2 st2 kvs2 c2.
            req2 \<in> set (snd (getCurrentUser (self\<lparr>token := t\<rparr>) e2)) \<and>
            send e2 req2 = Reply st2 (Some (PDict kvs2)) \<and>
            \<not> (400 \<le> st2 \<and> st2 < 600) \<and>
            map_of kvs2 ''errorCode'' = Some c2 \<and> py_eq_0 c2 \<longrightarrow>
            fst (getCurrentUser (self\<lparr>token := t\<rparr>) e2) =
              Inr (case map_of kvs2 ''result'' of None \<Rightarrow> PNone | Some u \<Rightarrow> u))"
proof -
  have f1: "fetch e1 req1 = Inr (PDict kvs1)"
    using assms(2,3) by (rule fetch_ok)
  have l: "login self e1 username password = (Inr (PDict rkvs), self\<lparr>token := t\<rparr>, [req1])"
    using assms(1) f1 assms(4,5,6,7) by (rule login_answered)
  have "baseurl self \<noteq> None"
  proof
    assume "baseurl self = None"
    then have "snd (snd (login self e1 username password)) = []"
      by (cases "credentials self username password")
         (auto simp: login_def post_def url_for_def Let_def)
    with assms(1) show False by simp
  qed
  then obtain b where b: "baseurl self = Some b" by blast
  have sent: "map r_verb (snd (getCurrentUser (self\<lparr>token := t\<rparr>) e2)) = [GET] \<and>
      map r_params (snd (getCurrentUser (self\<lparr>token := t\<rparr>) e2)) =
        [PDict [(''token'', t), (''_'', PInt (timestamp e2))]]"
    using b assms(8) by (simp add: getCurrentUser_def get_sent)
  have out: "fst (getCurrentUser (self\<lparr>token := t\<rparr>) e2) =
      Inr (case map_of kvs2 ''result'' of None \<Rightarrow> PNone | Some u \<Rightarrow> u)"
    if "req2 \<in> set (snd (getCurrentUser (self\<lparr>token := t\<rparr>) e2))"
      and "send e2 req2 = Reply st2 (Some (PDict kvs2))"
      and "\<not> (400 \<le> st2 \<and> st2 < 600)"
      and "map_of kvs2 ''errorCode'' = Some c2" and "py_eq_0 c2"
    for req2 st2 kvs2 c2
  proof -
    have f2: "fetch e2 req2 = Inr (PDict kvs2)"
      using that(2,3) by (rule fetch_ok)
    from that(1) f2 that(4,5) show ?thesis
      unfolding getCurrentUser_def by (rule get_ok)
  qed
  from l sent out show ?thesis by blast
qed

theorem login_then_getCurrentUser_witness:
  "login configured_client
     (controller (PDict [(''errorCode'', PInt 0), (''result'', PDict [(''token'', PStr ''abc'')])]))
     (PStr ''admin'') (PStr ''secret'') =
     (Inr (PDict [(''token'', PStr ''abc'')]),
      configured_client\<lparr>token := PStr ''abc''\<rparr>,
      [\<lparr>r_verb = POST, r_url = ''https://controller:8043/api/v2/login'',
        r_params = PNone, r_data = PNone,
        r_json = PDict [(''username'', PStr ''admin''), (''password'', PStr ''secret'')]\<rparr>]) \<and>
   snd (getCurrentUser (configured_client\<lparr>token := PStr ''abc''\<rparr>)
     (controller (PDict [(''errorCode'', PInt 0), (''result'', PDict [(''name'', PStr ''admin'')])])))
     = [\<lparr>r_verb = GET, r_url = ''https://controller:8043/api/v2/users/current'',
         r_params = PDict [(''token'', PStr ''abc''), (''_'', PInt 1700000000000)],
         r_data = PNone, r_json = PNone\<rparr>] \<and>
   fst (getCurrentUser (configured_client\<lparr>token := PStr ''abc''\<rparr>)
     (controller (PDict [(''errorCode'', PInt 0), (''result'', PDict [(''name'', PStr ''admin'')])])))
     = Inr (PDict [(''name'', PStr ''admin'')])"
proof -
  let ?e1 = "controller (PDict [(''errorCode'', PInt 0),
                                (''result'', PDict [(''token'', PStr ''abc'')])])"
  let ?e2 = "controller (PDict [(''errorCode'', PInt 0),
                                (''result'', PDict [(''name'', PStr ''admin'')])])"
  let ?req1 = "\<lparr>r_verb = POST, r_url = ''https://controller:8043/api/v2/login'',
        r_params = PNone, r_data = PNone,
        r_json = PDict [(''username'', PStr ''admin''), (''password'', PStr ''secret'')]\<rparr>"
  let ?req2 = "\<lparr>r_verb = GET, r_url = ''https://controller:8043/api/v2/users/current'',
         r_params = PDict [(''token'', PStr ''abc''), (''_'', PInt 1700000000000)],
         r_data = PNone, r_json = PNone\<rparr>"
  have sent1: "?req1 \<in> set (snd (snd (login configured_client ?e1 (PStr ''admin'') (PStr ''secret''))))"
    by (simp add: login_sent [of _ _ _ "PStr ''admin''" "PStr ''secret''"] credentials_def
          post_sent configured_client_def ApiPath_def)
  have sent2: "snd (getCurrentUser (configured_client\<lparr>token := PStr ''abc''\<rparr>) ?e2) = [?req2]"
    by (simp add: getCurrentUser_def get_sent configured_client_def ApiPath_def
          timestamp_def controller_def)
  have reply1: "send ?e1 ?req1 =
      Reply 200 (Some (PDict [(''errorCode'', PInt 0),
                              (''result'', PDict [(''token'', PStr ''abc'')])]))"
    by (simp add: controller_def)
  have reply2: "send ?e2 ?req2 =
      Reply 200 (Some (PDict [(''errorCode'', PInt 0),
                              (''result'', PDict [(''name'', PStr ''admin'')])]))"
    by (simp add: controller_def)
  note inst = login_then_getCurrentUser [OF sent1 reply1, of "PInt 0"
      "[(''token'', PStr ''abc'')]" "PStr ''abc''" ?e2]
  have all: "login configured_client ?e1 (PStr ''admin'') (PStr ''secret'') =
       (Inr (PDict [(''token'', PStr ''abc'')]), configured_client\<lparr>token := PStr ''abc''\<rparr>,
        [?req1]) \<and>
     (\<forall>req2 st2 kvs2 c2.
        req2 \<in> set (snd (getCurrentUser (configured_client\<lparr>token := PStr ''abc''\<rparr>) ?e2)) \<and>
        send ?e2 req2 = Reply st2 (Some (PDict kvs2)) \<and>
        \<not> (400 \<le> st2 \<and> st2 < 600) \<and>
        map_of kvs2 ''errorCode'' = Some c2 \<and> py_eq_0 c2 \<longrightarrow>
        fst (getCurrentUser (configured_client\<lparr>token := PStr ''abc''\<rparr>) ?e2) =
          Inr (case map_of kvs2 ''result'' of None \<Rightarrow> PNone | Some u \<Rightarrow> u))"
    using inst by simp
  from all have "fst (getCurrentUser (configured_client\<lparr>token := PStr ''abc''\<rparr>) ?e2) =
      Inr (case map_of [(''errorCode'', PInt 0), (''result'', PDict [(''name'', PStr ''admin'')])]
             ''result'' of None \<Rightarrow> PNone | Some u \<Rightarrow> u)"
    using sent2 reply2
    by (elim conjE allE [of _ ?req2] allE [of _ 200]
          allE [of _ "[(''errorCode'', PInt 0), (''result'', PDict [(''name'', PStr ''admin'')])]"]
          allE [of _ "PInt 0"]) simp
  with all sent2 show ?thesis by simp
qed

section \<open>Properties of the resource accessors\<close>

text \<open>
  C7. The claim says that every call of \<open>getSiteClients\<close> issues a GET with the query
  parameters \<open>currentPageSize=999\<close>, \<open>currentPage=1\<close> and \<open>filters.active=true\<close>. The
  statement that would send it is not in the body of the method, which has none: a
  call raises \<open>IndentationError\<close> and no request is handed to the session.
\<close>

theorem getSiteClients_sends_no_request:
  "getSiteClients example_client
     (controller (PDict [(''errorCode'', PInt 0), (''result'', PDict [(''data'', PList [])])]))
     None = (Inl IndentationError, [])"
  by (simp add: getSiteClients_def)

text \<open>
  C8, as the claim states it, fails for \<open>getSiteSettings\<close>: what it returns is not the
  \<open>result\<close> of the envelope when that has the key \<open>beaconControl\<close>.
\<close>

theorem getSiteSettings_result_changed:
  "fst (getSiteSettings example_client
         (controller (PDict [(''errorCode'', PInt 0),
            (''result'', PDict [(''beaconControl'', PBool True), (''name'', PStr ''home'')])]))
         None) = Inr (PDict [(''name'', PStr ''home'')]) \<and>
   fst (getSiteSettings example_client
         (controller (PDict [(''errorCode'', PInt 0),
            (''result'', PDict [(''beaconControl'', PBool True), (''name'', PStr ''home'')])]))
         None) \<noteq> Inr (PDict [(''beaconControl'', PBool True), (''name'', PStr ''home'')])"
  by (simp add: getSiteSettings_def strip_dict site_or_default_def get_def url_for_def
        fetch_def controller_def example_client_def Let_def)

text \<open>
  C8, amended. When the request of an accessor was answered, without an HTTP error
  status, by a parsed envelope with \<open>errorCode\<close> 0, write \<open>r\<close> for the envelope's
  \<open>result\<close> (\<open>None\<close> when absent). Then \<open>getSiteGroups\<close>, \<open>getWirelessGroups\<close> and
  \<open>getWirelessNetworks\<close> return \<open>r['data']\<close>; \<open>getPortalCandidates\<close>,
  \<open>getRadiusProfiles\<close>, \<open>getScenarios\<close>, \<open>getSiteDevices\<close> and \<open>getTimeRanges\<close>
  return \<open>r\<close>. \<open>getSiteSettings\<close> never indexes \<open>data\<close>: for a dict \<open>r\<close> it returns
  the dict without the key \<open>beaconControl\<close>; for any \<open>r\<close> in which \<open>beaconControl\<close> is
  not found it returns \<open>r\<close>; where it is found the outcome is that of
  \<open>del r['beaconControl']\<close>; and where \<open>in\<close> raises, as it does for \<open>None\<close> (an
  absent \<open>result\<close>), the method raises that \<open>TypeError\<close>. Nothing is said of
  \<open>getSiteClients\<close>.
\<close>

theorem unwrapping_table:
  assumes "send e req = Reply st (Some (PDict kvs))"
    and "\<not> (400 \<le> st \<and> st < 600)"
    and "map_of kvs ''errorCode'' = Some c"
    and "py_eq_0 c"
    and "r = (case map_of kvs ''result'' of None \<Rightarrow> PNone | Some v \<Rightarrow> v)"
  shows
    "(req \<in> set (snd (getSiteGroups self e site' type')) \<longrightarrow>
        fst (getSiteGroups self e site' type') = py_getitem r ''data'') \<and>
     (req \<in> set (snd (getWirelessGroups self e site')) \<longrightarrow>
        fst (getWirelessGroups self e site') = py_getitem r ''data'') \<and>
     (req \<in> set (snd (getWirelessNetworks self e group' site')) \<longrightarrow>
        fst (getWirelessNetworks self e group' site') = py_getitem r ''data'') \<and>
     (req \<in> set (snd (getPortalCandidates self e site')) \<longrightarrow>
        fst (getPortalCandidates self e site') = Inr r) \<and>
     (req \<in> set (snd (getRadiusProfiles self e site')) \<longrightarrow>
        fst (getRadiusProfiles self e site') = Inr r) \<and>
     (req \<in> set (snd (getScenarios self e)) \<longrightarrow>
        fst (getScenarios self e) = Inr r) \<and>
     (req \<in> set (snd (getSiteDevices self e site')) \<longrightarrow>
        fst (getSiteDevices self e site') = Inr r) \<and>
     (req \<in> set (snd (getTimeRanges self e site')) \<longrightarrow>
        fst (getTimeRanges self e site') = Inr r) \<and>
     (req \<in> set (fst (snd (getSiteSettings self e site'))) \<longrightarrow>
        (\<forall>rkvs. r = PDict rkvs \<longrightarrow>
           fst (getSiteSettings self e site') =
             Inr (PDict (AList.delete ''beaconControl'' rkvs))) \<and>
        (py_in ''beaconControl'' r = Inr False \<longrightarrow>
           fst (getSiteSettings self e site') = Inr r) \<and>
        (py_in ''beaconControl'' r = Inr True \<longrightarrow>
           fst (getSiteSettings self e site') = py_delitem r ''beaconControl'') \<and>
        (\<forall>err. py_in ''beaconControl'' r = Inl err \<longrightarrow>
           fst (getSiteSettings self e site') = Inl err) \<and>
        (r = PNone \<longrightarrow> fst (getSiteSettings self e site') = Inl TypeErrorOp))"
proof -
  have f: "fetch e req = Inr (PDict kvs)"
    using assms(1,2) by (rule fetch_ok)
  have G: "fst (get self e path PNone PNone PNone) = Inr r"
    if "req \<in> set (snd (get self e path PNone PNone PNone))" for path
    using get_ok [OF that f assms(3,4)] assms(5) by simp
  have groups: "req \<in> set (snd (getSiteGroups self e site' type')) \<longrightarrow>
        fst (getSiteGroups self e site' type') = py_getitem r ''data''"
    by (cases type') (simp_all add: getSiteGroups_def Let_def index_data_fst index_data_snd G)
  have wgroups: "req \<in> set (snd (getWirelessGroups self e site')) \<longrightarrow>
        fst (getWirelessGroups self e site') = py_getitem r ''data''"
    by (simp add: getWirelessGroups_def Let_def index_data_fst index_data_snd G)
  have wnets: "req \<in> set (snd (getWirelessNetworks self e group' site')) \<longrightarrow>
        fst (getWirelessNetworks self e group' site') = py_getitem r ''data''"
    by (simp add: getWirelessNetworks_def Let_def index_data_fst index_data_snd G)
  have portal: "req \<in> set (snd (getPortalCandidates self e site')) \<longrightarrow>
        fst (getPortalCandidates self e site') = Inr r"
    by (simp add: getPortalCandidates_def Let_def G)
  have radius: "req \<in> set (snd (getRadiusProfiles self e site')) \<longrightarrow>
        fst (getRadiusProfiles self e site') = Inr r"
    by (simp add: getRadiusProfiles_def Let_def G)
  have scen: "req \<in> set (snd (getScenarios self e)) \<longrightarrow>
        fst (getScenarios self e) = Inr r"
    by (simp add: getScenarios_def G)
  have devices: "req \<in> set (snd (getSiteDevices self e site')) \<longrightarrow>
        fst (getSiteDevices self e site') = Inr r"
    by (simp add: getSiteDevices_def Let_def G)
  have ranges: "req \<in> set (snd (getTimeRanges self e site')) \<longrightarrow>
        fst (getTimeRanges self e site') = Inr r"
    by (simp add: getTimeRanges_def Let_def G)
  have settings: "req \<in> set (fst (snd (getSiteSettings self e site'))) \<longrightarrow>
        (\<forall>rkvs. r = PDict rkvs \<longrightarrow>
           fst (getSiteSettings self e site') =
             Inr (PDict (AList.delete ''beaconControl'' rkvs))) \<and>
        (py_in ''beaconControl'' r = Inr False \<longrightarrow>
           fst (getSiteSettings self e site') = Inr r) \<and>
        (py_in ''beaconControl'' r = Inr True \<longrightarrow>
           fst (getSiteSettings self e site') = py_delitem r ''beaconControl'') \<and>
        (\<forall>err. py_in ''beaconControl'' r = Inl err \<longrightarrow>
           fst (getSiteSettings self e site') = Inl err) \<and>
        (r = PNone \<longrightarrow> fst (getSiteSettings self e site') = Inl TypeErrorOp)"
    by (simp add: getSiteSettings_sent getSiteSettings_fst G strip_unchanged strip_dict
          strip_raises strip_present)
  from groups wgroups wnets portal radius scen devices ranges settings
  show ?thesis by blast
qed

theorem unwrapping_table_witness:
  "fst (getSiteGroups example_client (controller (PDict [(''errorCode'', PInt 0), (''result'', PDict [(''data'', PList [PStr ''x'']), (''beaconControl'', PBool True)])])) None (Some MACGroup)) =
     Inr (PList [PStr ''x'']) \<and>
   fst (getWirelessGroups example_client (controller (PDict [(''errorCode'', PInt 0), (''result'', PDict [(''data'', PList [PStr ''x'']), (''beaconControl'', PBool True)])])) None) =
     Inr (PList [PStr ''x'']) \<and>
   fst (getWirelessNetworks example_client (controller (PDict [(''errorCode'', PInt 0), (''result'', PDict [(''data'', PList [PStr ''x'']), (''beaconControl'', PBool True)])])) ''g1'' None) =
     Inr (PList [PStr ''x'']) \<and>
   fst (getPortalCandidates example_client (controller (PDict [(''errorCode'', PInt 0), (''result'', PDict [(''data'', PList [PStr ''x'']), (''beaconControl'', PBool True)])])) None) =
     Inr (PDict [(''data'', PList [PStr ''x'']), (''beaconControl'', PBool True)]) \<and>
   fst (getRadiusProfiles example_client (controller (PDict [(''errorCode'', PInt 0), (''result'', PDict [(''data'', PList [PStr ''x'']), (''beaconControl'', PBool True)])])) None) =
     Inr (PDict [(''data'', PList [PStr ''x'']), (''beaconControl'', PBool True)]) \<and>
   fst (getScenarios example_client (controller (PDict [(''errorCode'', PInt 0), (''result'', PDict [(''data'', PList [PStr ''x'']), (''beaconControl'', PBool True)])]))) =
     Inr (PDict [(''data'', PList [PStr ''x'']), (''beaconControl'', PBool True)]) \<and>
   fst (getSiteDevices example_client (controller (PDict [(''errorCode'', PInt 0), (''result'', PDict [(''data'', PList [PStr ''x'']), (''beaconControl'', PBool True)])])) None) =
     Inr (PDict [(''data'', PList [PStr ''x'']), (''beaconControl'', PBool True)]) \<and>
   fst (getTimeRanges example_client (controller (PDict [(''errorCode'', PInt 0), (''result'', PDict [(''data'', PList [PStr ''x'']), (''beaconControl'', PBool True)])])) None) =
     Inr (PDict [(''data'', PList [PStr ''x'']), (''beaconControl'', PBool True)]) \<and>
   fst (getSiteSettings example_client (controller (PDict [(''errorCode'', PInt 0), (''result'', PDict [(''data'', PList [PStr ''x'']), (''beaconControl'', PBool True)])])) None) =
     Inr (PDict [(''data'', PList [PStr ''x''])]) \<and>
   fst (getSiteSettings example_client (controller (PDict [(''errorCode'', PInt 0), (''result'', PDict [(''name'', PStr ''home'')])])) None) =
     Inr (PDict [(''name'', PStr ''home'')]) \<and>
   fst (getSiteSettings example_client (controller (PDict [(''errorCode'', PInt 0)])) None) =
     Inl TypeErrorOp \<and>
   fst (getSiteDevices example_client (controller (PDict [(''errorCode'', PInt 0)])) None) =
     Inr PNone"
  using
    unwrapping_table [where self = example_client
        and e = "controller (PDict [(''errorCode'', PInt 0), (''result'', PDict [(''data'', PList [PStr ''x'']), (''beaconControl'', PBool True)])])"
        and st = 200
        and kvs = "[(''errorCode'', PInt 0), (''result'', PDict [(''data'', PList [PStr ''x'']), (''beaconControl'', PBool True)])]"
        and c = "PInt 0"
        and r = "PDict [(''data'', PList [PStr ''x'']), (''beaconControl'', PBool True)]"
        and req = "\<lparr>r_verb = GET, r_url = ''https://controller:8043/api/v2/sites/Default/setting/profiles/groups/2'',
          r_params = PDict [(''token'', PStr ''t0k3n''), (''_'', PInt 1700000000000)],
          r_data = PNone, r_json = PNone\<rparr>"
        and site' = None and type' = "Some MACGroup"]
    unwrapping_table [where self = example_client
        and e = "controller (PDict [(''errorCode'', PInt 0), (''result'', PDict [(''data'', PList [PStr ''x'']), (''beaconControl'', PBool True)])])"
        and st = 200
        and kvs = "[(''errorCode'', PInt 0), (''result'', PDict [(''data'', PList [PStr ''x'']), (''beaconControl'', PBool True)])]"
        and c = "PInt 0"
        and r = "PDict [(''data'', PList [PStr ''x'']), (''beaconControl'', PBool True)]"
        and req = "\<lparr>r_verb = GET, r_url = ''https://controller:8043/api/v2/sites/Default/setting/wlans'',
          r_params = PDict [(''token'', PStr ''t0k3n''), (''_'', PInt 1700000000000)],
          r_data = PNone, r_json = PNone\<rparr>"
        and site' = None]
    unwrapping_table [where self = example_client
        and e = "controller (PDict [(''errorCode'', PInt 0), (''result'', PDict [(''data'', PList [PStr ''x'']), (''beaconControl'', PBool True)])])"
        and st = 200
        and kvs = "[(''errorCode'', PInt 0), (''result'', PDict [(''data'', PList [PStr ''x'']), (''beaconControl'', PBool True)])]"
        and c = "PInt 0"
        and r = "PDict [(''data'', PList [PStr ''x'']), (''beaconControl'', PBool True)]"
        and req = "\<lparr>r_verb = GET, r_url = ''https://controller:8043/api/v2/sites/Default/setting/wlans/g1/ssids'',
          r_params = PDict [(''token'', PStr ''t0k3n''), (''_'', PInt 1700000000000)],
          r_data = PNone, r_json = PNone\<rparr>"
        and site' = None and group' = "''g1''"]
    unwrapping_table [where self = example_client
        and e = "controller (PDict [(''errorCode'', PInt 0), (''result'', PDict [(''data'', PList [PStr ''x'']), (''beaconControl'', PBool True)])])"
        and st = 200
        and kvs = "[(''errorCode'', PInt 0), (''result'', PDict [(''data'', PList [PStr ''x'']), (''beaconControl'', PBool True)])]"
        and c = "PInt 0"
        and r = "PDict [(''data'', PList [PStr ''x'']), (''beaconControl'', PBool True)]"
        and req = "\<lparr>r_verb = GET, r_url = ''https://controller:8043/api/v2/sites/Default/setting/portal/candidates'',
          r_params = PDict [(''token'', PStr ''t0k3n''), (''_'', PInt 1700000000000)],
          r_data = PNone, r_json = PNone\<rparr>"
        and site' = None]
    unwrapping_table [where self = example_client
        and e = "controller (PDict [(''errorCode'', PInt 0), (''result'', PDict [(''data'', PList [PStr ''x'']), (''beaconControl'', PBool True)])])"
        and st = 200
        and kvs = "[(''errorCode'', PInt 0), (''result'', PDict [(''data'', PList [PStr ''x'']), (''beaconControl'', PBool True)])]"
        and c = "PInt 0"
        and r = "PDict [(''data'', PList [PStr ''x'']), (''beaconControl'', PBool True)]"
        and req = "\<lparr>r_verb = GET, r_url = ''https://controller:8043/api/v2/sites/Default/setting/radiusProfiles'',
          r_params = PDict [(''token'', PStr ''t0k3n''), (''_'', PInt 1700000000000)],
          r_data = PNone, r_json = PNone\<rparr>"
        and site' = None]
    unwrapping_table [where self = example_client
        and e = "controller (PDict [(''errorCode'', PInt 0), (''result'', PDict [(''data'', PList [PStr ''x'']), (''beaconControl'', PBool True)])])"
        and st = 200
        and kvs = "[(''errorCode'', PInt 0), (''result'', PDict [(''data'', PList [PStr ''x'']), (''beaconControl'', PBool True)])]"
        and c = "PInt 0"
        and r = "PDict [(''data'', PList [PStr ''x'']), (''beaconControl'', PBool True)]"
        and req = "\<lparr>r_verb = GET, r_url = ''https://controller:8043/api/v2/scenarios'',
          r_params = PDict [(''token'', PStr ''t0k3n''), (''_'', PInt 1700000000000)],
          r_data = PNone, r_json = PNone\<rparr>"]
    unwrapping_table [where self = example_client
        and e = "controller (PDict [(''errorCode'', PInt 0), (''result'', PDict [(''data'', PList [PStr ''x'']), (''beaconControl'', PBool True)])])"
        and st = 200
        and kvs = "[(''errorCode'', PInt 0), (''result'', PDict [(''data'', PList [PStr ''x'']), (''beaconControl'', PBool True)])]"
        and c = "PInt 0"
        and r = "PDict [(''data'', PList [PStr ''x'']), (''beaconControl'', PBool True)]"
        and req = "\<lparr>r_verb = GET, r_url = ''https://controller:8043/api/v2/sites/Default/devices'',
          r_params = PDict [(''token'', PStr ''t0k3n''), (''_'', PInt 1700000000000)],
          r_data = PNone, r_json = PNone\<rparr>"
        and site' = None]
    unwrapping_table [where self = example_client
        and e = "controller (PDict [(''errorCode'', PInt 0), (''result'', PDict [(''data'', PList [PStr ''x'']), (''beaconControl'', PBool True)])])"
        and st = 200
        and kvs = "[(''errorCode'', PInt 0), (''result'', PDict [(''data'', PList [PStr ''x'']), (''beaconControl'', PBool True)])]"
        and c = "PInt 0"
        and r = "PDict [(''data'', PList [PStr ''x'']), (''beaconControl'', PBool True)]"
        and req = "\<lparr>r_verb = GET, r_url = ''https://controller:8043/api/v2/sites/Default/setting/profiles/timeranges'',
          r_params = PDict [(''token'', PStr ''t0k3n''), (''_'', PInt 1700000000000)],
          r_data = PNone, r_json = PNone\<rparr>"
        and site' = None]
    unwrapping_table [where self = example_client
        and e = "controller (PDict [(''errorCode'', PInt 0), (''result'', PDict [(''data'', PList [PStr ''x'']), (''beaconControl'', PBool True)])])"
        and st = 200
        and kvs = "[(''errorCode'', PInt 0), (''result'', PDict [(''data'', PList [PStr ''x'']), (''beaconControl'', PBool True)])]"
        and c = "PInt 0"
        and r = "PDict [(''data'', PList [PStr ''x'']), (''beaconControl'', PBool True)]"
        and req = "\<lparr>r_verb = GET, r_url = ''https://controller:8043/api/v2/sites/Default/setting'',
          r_params = PDict [(''token'', PStr ''t0k3n''), (''_'', PInt 1700000000000)],
          r_data = PNone, r_json = PNone\<rparr>"
        and site' = None]
    unwrapping_table [where self = example_client
        and e = "controller (PDict [(''errorCode'', PInt 0), (''result'', PDict [(''name'', PStr ''home'')])])"
        and st = 200
        and kvs = "[(''errorCode'', PInt 0), (''result'', PDict [(''name'', PStr ''home'')])]"
        and c = "PInt 0"
        and r = "PDict [(''name'', PStr ''home'')]"
        and req = "\<lparr>r_verb = GET, r_url = ''https://controller:8043/api/v2/sites/Default/setting'',
          r_params = PDict [(''token'', PStr ''t0k3n''), (''_'', PInt 1700000000000)],
          r_data = PNone, r_json = PNone\<rparr>"
        and site' = None]
    unwrapping_table [where self = example_client
        and e = "controller (PDict [(''errorCode'', PInt 0)])"
        and st = 200
        and kvs = "[(''errorCode'', PInt 0)]"
        and c = "PInt 0"
        and r = "PNone"
        and req = "\<lparr>r_verb = GET, r_url = ''https://controller:8043/api/v2/sites/Default/setting'',
          r_params = PDict [(''token'', PStr ''t0k3n''), (''_'', PInt 1700000000000)],
          r_data = PNone, r_json = PNone\<rparr>"
        and site' = None]
    unwrapping_table [where self = example_client
        and e = "controller (PDict [(''errorCode'', PInt 0)])"
        and st = 200
        and kvs = "[(''errorCode'', PInt 0)]"
        and c = "PInt 0"
        and r = "PNone"
        and req = "\<lparr>r_verb = GET, r_url = ''https://controller:8043/api/v2/sites/Default/devices'',
          r_params = PDict [(''token'', PStr ''t0k3n''), (''_'', PInt 1700000000000)],
          r_data = PNone, r_json = PNone\<rparr>"
        and site' = None]
  by (simp add: getSiteGroups_def getWirelessGroups_def getWirelessNetworks_def
        getPortalCandidates_def getRadiusProfiles_def getScenarios_def getSiteDevices_def
        getTimeRanges_def getSiteSettings_sent index_data_snd
        get_sent site_or_default_def example_client_def controller_def ApiPath_def
        timestamp_def str_int_def MACGroup_def)


end
